theory Spec2Isabelle
  imports Complex_Main
begin

section \<open>The Hammer and Dance SIR simulation (hammer_dance.py)\<close>

text \<open>
  The numbers of the state (\<^verbatim>\<open>S\<close>, \<^verbatim>\<open>I\<close>, \<^verbatim>\<open>R\<close>, \<^verbatim>\<open>t\<close>, the rates, the thresholds) are
  modelled as exact reals: what is stated about them is about exact arithmetic and says
  nothing about rounding. The number of steps is another matter: it is \<^verbatim>\<open>int\<close> of the double
  that \<^verbatim>\<open>max_days / dt\<close> evaluates to, and the rounding of that one division can change it.
  That double is therefore not computed here: it is an argument, \<open>ratio\<close>, of the model
  of the function, and every statement holds for whatever value the division yields.

  The exceptions of the simulation core are values of the result type: the division by zero
  of \<^verbatim>\<open>S / self.N\<close> and of \<^verbatim>\<open>max_days / dt\<close>, and the two errors of \<^verbatim>\<open>int\<close> on a float that is
  infinite or not a number. Console output (\<^verbatim>\<open>print\<close>) is left out: it reads the state and
  changes nothing.
\<close>

datatype error = ZeroDivisionError | OverflowError | ValueError

text \<open>The value of a Python float: a finite number, an infinity, or a NaN.\<close>

datatype py_float = Finite real | PosInf | NegInf | NaN

text \<open>
  \<^verbatim>\<open>current_phase\<close> only ever holds the string \<^verbatim>\<open>'dance'\<close> or the string \<^verbatim>\<open>'hammer'\<close>,
  and the second component of a transition point is \<^verbatim>\<open>'dance_to_hammer'\<close> or
  \<^verbatim>\<open>'hammer_to_dance_threshold'\<close>.
\<close>

datatype phase = Dance | Hammer

datatype transition_kind = Dance_to_hammer | Hammer_to_dance_threshold

subsection \<open>The model object\<close>

record HammerDanceModel =
  N :: real
  S0 :: real
  I0 :: real
  R0 :: real
  beta_hammer :: real
  beta_dance :: real
  gamma :: real

text \<open>\<^verbatim>\<open>HammerDanceModel.__init__\<close>\<close>

definition init :: "real \<Rightarrow> real \<Rightarrow> real \<Rightarrow> real \<Rightarrow> real \<Rightarrow> real \<Rightarrow> HammerDanceModel" where
  "init n i0 r0 bh bd g =
     \<lparr>N = n, S0 = n - i0 - r0, I0 = i0, R0 = r0,
      beta_hammer = bh, beta_dance = bd, gamma = g\<rparr>"

subsection \<open>Derivatives and the Euler step\<close>

text \<open>
  \<^verbatim>\<open>sir_derivatives\<close>: the three divisions by \<^verbatim>\<open>self.N\<close> come first, and the first of them
  raises when \<^verbatim>\<open>self.N\<close> is zero.
\<close>

definition sir_derivatives ::
  "HammerDanceModel \<Rightarrow> real \<Rightarrow> real \<Rightarrow> real \<Rightarrow> real \<Rightarrow> error + (real \<times> real \<times> real)" where
  "sir_derivatives self s_abs i_abs r_abs beta =
     (if N self = 0 then Inl ZeroDivisionError
      else
        let s = s_abs / N self;
            i = i_abs / N self;
            r = r_abs / N self;
            dsdt = - beta * s * i;
            didt = beta * s * i - gamma self * i;
            drdt = gamma self * i;
            dSdt = dsdt * N self;
            dIdt = didt * N self;
            dRdt = drdt * N self
        in Inr (dSdt, dIdt, dRdt))"

definition euler_step ::
  "HammerDanceModel \<Rightarrow> real \<Rightarrow> real \<Rightarrow> real \<Rightarrow> real \<Rightarrow> real \<Rightarrow> error + (real \<times> real \<times> real)" where
  "euler_step self s_abs i_abs r_abs beta dt =
     (case sir_derivatives self s_abs i_abs r_abs beta of
        Inl e \<Rightarrow> Inl e
      | Inr (dSdt, dIdt, dRdt) \<Rightarrow>
          let S_new = s_abs + dSdt * dt;
              I_new = i_abs + dIdt * dt;
              R_new = r_abs + dRdt * dt
          in Inr (S_new, I_new, R_new))"

subsection \<open>The simulation loop\<close>

text \<open>
  The local variables of \<^verbatim>\<open>simulate_dynamic_hammer_dance\<close>. The locals \<^verbatim>\<open>t\<close>, \<^verbatim>\<open>S\<close>, \<^verbatim>\<open>I\<close>
  and \<^verbatim>\<open>R\<close> are the fields \<open>t_cur\<close>, \<open>S_cur\<close>, \<open>I_cur\<close> and \<open>R_cur\<close>; the other fields
  carry the names of the source. (\<^verbatim>\<open>phase_duration\<close> is assigned once and never read.)
\<close>

record sim_state =
  t_cur :: real
  S_cur :: real
  I_cur :: real
  R_cur :: real
  current_phase :: phase
  phase_start_time :: real
  t_list :: "real list"
  S_list :: "real list"
  I_list :: "real list"
  R_list :: "real list"
  phase_list :: "phase list"
  transition_points :: "(real \<times> transition_kind \<times> real) list"

text \<open>The state on entry to the loop (source lines 95 to 109).\<close>

definition initial_state :: "HammerDanceModel \<Rightarrow> sim_state" where
  "initial_state self =
     \<lparr>t_cur = 0, S_cur = S0 self, I_cur = I0 self, R_cur = R0 self,
      current_phase = Dance, phase_start_time = 0,
      t_list = [], S_list = [], I_list = [], R_list = [], phase_list = [],
      transition_points = []\<rparr>"

text \<open>The five \<^verbatim>\<open>append\<close> calls that open the loop body.\<close>

definition record_state :: "sim_state \<Rightarrow> sim_state" where
  "record_state st =
     st\<lparr>t_list := t_list st @ [t_cur st],
        S_list := S_list st @ [S_cur st],
        I_list := I_list st @ [I_cur st],
        R_list := R_list st @ [R_cur st],
        phase_list := phase_list st @ [current_phase st]\<rparr>"

text \<open>
  The loop body up to and including \<^verbatim>\<open>t += dt\<close>. The integration sits inside the branch
  chosen by the phase the step began with, after the assignment to \<^verbatim>\<open>current_phase\<close>.
\<close>

definition loop_body ::
  "HammerDanceModel \<Rightarrow> real \<Rightarrow> real \<Rightarrow> real \<Rightarrow> sim_state \<Rightarrow> error + sim_state" where
  "loop_body self hammer_threshold dance_threshold dt st =
     (let st1 = record_state st in
      case current_phase st1 of
        Dance \<Rightarrow>
          (let st2 =
                 (if I_cur st1 > hammer_threshold
                  then st1\<lparr>current_phase := Hammer,
                           phase_start_time := t_cur st1,
                           transition_points :=
                             transition_points st1 @ [(t_cur st1, Dance_to_hammer, I_cur st1)]\<rparr>
                  else st1)
           in case euler_step self (S_cur st2) (I_cur st2) (R_cur st2) (beta_dance self) dt of
                Inl e \<Rightarrow> Inl e
              | Inr (S_new, I_new, R_new) \<Rightarrow>
                  Inr (st2\<lparr>S_cur := S_new, I_cur := I_new, R_cur := R_new,
                           t_cur := t_cur st2 + dt\<rparr>))
      | Hammer \<Rightarrow>
          (let st2 =
                 (if I_cur st1 < dance_threshold
                  then st1\<lparr>current_phase := Dance,
                           phase_start_time := t_cur st1,
                           transition_points :=
                             transition_points st1 @
                               [(t_cur st1, Hammer_to_dance_threshold, I_cur st1)]\<rparr>
                  else st1)
           in case euler_step self (S_cur st2) (I_cur st2) (R_cur st2) (beta_hammer self) dt of
                Inl e \<Rightarrow> Inl e
              | Inr (S_new, I_new, R_new) \<Rightarrow>
                  Inr (st2\<lparr>S_cur := S_new, I_cur := I_new, R_cur := R_new,
                           t_cur := t_cur st2 + dt\<rparr>)))"

text \<open>
  \<^verbatim>\<open>for step in range(steps)\<close> with its \<^verbatim>\<open>break\<close>: the argument \<open>n\<close> counts the
  iterations that remain. The test \<^verbatim>\<open>I < 0.1\<close> closes the body, so it is made on the
  integrated value and before the next iteration is taken from the range.
\<close>

fun for_loop ::
  "HammerDanceModel \<Rightarrow> real \<Rightarrow> real \<Rightarrow> real \<Rightarrow> nat \<Rightarrow> sim_state \<Rightarrow> error + sim_state" where
  "for_loop self hammer_threshold dance_threshold dt 0 st = Inr st"
| "for_loop self hammer_threshold dance_threshold dt (Suc n) st =
     (case loop_body self hammer_threshold dance_threshold dt st of
        Inl e \<Rightarrow> Inl e
      | Inr st' \<Rightarrow>
          if I_cur st' < 0.1 then Inr st'
          else for_loop self hammer_threshold dance_threshold dt n st')"

text \<open>
  Python's \<^verbatim>\<open>int\<close> on a float: truncation towards zero of a finite value,
  \<^verbatim>\<open>OverflowError\<close> on an infinity, \<^verbatim>\<open>ValueError\<close> on a NaN.
\<close>

definition py_int :: "py_float \<Rightarrow> error + int" where
  "py_int x =
     (case x of
        Finite v \<Rightarrow> Inr (if 0 \<le> v then \<lfloor>v\<rfloor> else \<lceil>v\<rceil>)
      | PosInf \<Rightarrow> Inl OverflowError
      | NegInf \<Rightarrow> Inl OverflowError
      | NaN \<Rightarrow> Inl ValueError)"

text \<open>
  \<^verbatim>\<open>steps = int(max_days / dt)\<close>, where \<open>ratio\<close> is the double that \<^verbatim>\<open>max_days / dt\<close>
  evaluates to when \<^verbatim>\<open>dt\<close> is not zero; a range over a negative number is empty. The
  function \<open>simulate_run\<close> is \<^verbatim>\<open>simulate_dynamic_hammer_dance\<close> up to its \<^verbatim>\<open>return\<close>
  statement: it yields all the locals at the exit of the loop.
\<close>

definition simulate_run ::
  "py_float \<Rightarrow> HammerDanceModel \<Rightarrow> real \<Rightarrow> real \<Rightarrow> real \<Rightarrow> real \<Rightarrow> error + sim_state" where
  "simulate_run ratio self max_days hammer_threshold dance_threshold dt =
     (if dt = 0 then Inl ZeroDivisionError
      else case py_int ratio of
             Inl e \<Rightarrow> Inl e
           | Inr steps \<Rightarrow>
               for_loop self hammer_threshold dance_threshold dt (nat steps)
                 (initial_state self))"

text \<open>
  The function as it is called. \<^verbatim>\<open>hammer_duration\<close> and \<^verbatim>\<open>dance_duration\<close> are accepted
  and never read (the caller passes \<^verbatim>\<open>None\<close>).
\<close>

definition simulate_dynamic_hammer_dance ::
  "py_float \<Rightarrow> HammerDanceModel \<Rightarrow> real \<Rightarrow> real \<Rightarrow> real \<Rightarrow> real option \<Rightarrow> real option \<Rightarrow>
   real \<Rightarrow>
   error + (real list \<times> real list \<times> real list \<times> real list \<times> phase list \<times>
            (real \<times> transition_kind \<times> real) list)" where
  "simulate_dynamic_hammer_dance ratio self max_days hammer_threshold dance_threshold
       hammer_duration dance_duration dt =
     (case simulate_run ratio self max_days hammer_threshold dance_threshold dt of
        Inl e \<Rightarrow> Inl e
      | Inr st \<Rightarrow>
          Inr (t_list st, S_list st, I_list st, R_list st, phase_list st,
               transition_points st))"

section \<open>Notions used to state the properties\<close>

text \<open>
  The rate that belongs to a phase, the transition table of the phase controller and the kind
  of event that leaving a phase produces, as the specification words them. They are compared
  with the loop body below.
\<close>

definition rate_of :: "HammerDanceModel \<Rightarrow> phase \<Rightarrow> real" where
  "rate_of self ph = (case ph of Dance \<Rightarrow> beta_dance self | Hammer \<Rightarrow> beta_hammer self)"

definition next_phase :: "real \<Rightarrow> real \<Rightarrow> phase \<Rightarrow> real \<Rightarrow> phase" where
  "next_phase hammer_threshold dance_threshold ph i =
     (case ph of
        Dance \<Rightarrow> if i > hammer_threshold then Hammer else Dance
      | Hammer \<Rightarrow> if i < dance_threshold then Dance else Hammer)"

definition kind_from :: "phase \<Rightarrow> transition_kind" where
  "kind_from ph = (case ph of Dance \<Rightarrow> Dance_to_hammer | Hammer \<Rightarrow> Hammer_to_dance_threshold)"

text \<open>
  The transition log that a recorded series calls for: one event for every row whose phase
  differs from the phase that follows it, in the order of the rows. A row is the time, the
  infected count and the phase recorded at the start of a step; \<open>final\<close> is the phase that
  follows the last row.
\<close>

fun expected_log ::
  "(real \<times> real \<times> phase) list \<Rightarrow> phase \<Rightarrow> (real \<times> transition_kind \<times> real) list" where
  "expected_log [] final = []"
| "expected_log ((t, i, ph) # rest) final =
     (let after = (case rest of [] \<Rightarrow> final | (_, _, ph') # _ \<Rightarrow> ph')
      in (if after \<noteq> ph then [(t, kind_from ph, i)] else []) @ expected_log rest final)"

subsection \<open>Invariants of the loop\<close>

text \<open>The five series grow together.\<close>

definition aligned :: "sim_state \<Rightarrow> bool" where
  "aligned st \<longleftrightarrow>
     length (S_list st) = length (t_list st) \<and> length (I_list st) = length (t_list st) \<and>
     length (R_list st) = length (t_list st) \<and> length (phase_list st) = length (t_list st)"

text \<open>Row \<open>k\<close> carries the time \<open>k dt\<close>, and the clock is one step ahead of the last row.\<close>

definition timed :: "real \<Rightarrow> sim_state \<Rightarrow> bool" where
  "timed dt st \<longleftrightarrow>
     t_cur st = real (length (t_list st)) * dt \<and>
     (\<forall>k < length (t_list st). t_list st ! k = real k * dt)"

text \<open>
  Each row leads to the next one, and the last row to the current values, by one Euler step
  at the rate of the row's phase and one move of the transition table.
\<close>

definition chained :: "HammerDanceModel \<Rightarrow> real \<Rightarrow> real \<Rightarrow> real \<Rightarrow> sim_state \<Rightarrow> bool" where
  "chained self ht dth dt st \<longleftrightarrow>
     (\<forall>k < length (t_list st).
        euler_step self (S_list st ! k) (I_list st ! k) (R_list st ! k)
            (rate_of self (phase_list st ! k)) dt =
          Inr ((S_list st @ [S_cur st]) ! Suc k, (I_list st @ [I_cur st]) ! Suc k,
               (R_list st @ [R_cur st]) ! Suc k) \<and>
        (phase_list st @ [current_phase st]) ! Suc k =
          next_phase ht dth (phase_list st ! k) (I_list st ! k))"

definition started :: "HammerDanceModel \<Rightarrow> sim_state \<Rightarrow> bool" where
  "started self st \<longleftrightarrow>
     (S_list st @ [S_cur st]) ! 0 = S0 self \<and> (I_list st @ [I_cur st]) ! 0 = I0 self \<and>
     (R_list st @ [R_cur st]) ! 0 = R0 self \<and> (phase_list st @ [current_phase st]) ! 0 = Dance"

text \<open>Every row but the first was integrated by a step that did not end the run.\<close>

definition alive :: "sim_state \<Rightarrow> bool" where
  "alive st \<longleftrightarrow> (\<forall>k. 0 < k \<and> k < length (I_list st) \<longrightarrow> \<not> I_list st ! k < 0.1)"

definition run_inv :: "HammerDanceModel \<Rightarrow> real \<Rightarrow> real \<Rightarrow> real \<Rightarrow> sim_state \<Rightarrow> bool" where
  "run_inv self ht dth dt st \<longleftrightarrow>
     aligned st \<and> timed dt st \<and> chained self ht dth dt st \<and> started self st \<and> alive st"

definition logged :: "sim_state \<Rightarrow> bool" where
  "logged st \<longleftrightarrow>
     transition_points st =
       expected_log (zip (t_list st) (zip (I_list st) (phase_list st))) (current_phase st)"

subsection \<open>Two concrete runs\<close>

text \<open>
  A population of 1000 with 100 infected, above the hammer threshold 50 from the start, run
  for two steps of one day; and a population with 0.3 infected that only recovers, which
  falls below 0.1 in its second step of a budget of five.
\<close>

abbreviation switch_model :: HammerDanceModel where
  "switch_model \<equiv> init 1000 100 0 (1/10) (1/2) (1/10)"

abbreviation switch_step :: sim_state where
  "switch_step \<equiv>
     \<lparr>t_cur = 1, S_cur = 855, I_cur = 135, R_cur = 10,
      current_phase = Hammer, phase_start_time = 0, t_list = [0],
      S_list = [900], I_list = [100], R_list = [0], phase_list = [Dance],
      transition_points = [(0, Dance_to_hammer, 100)]\<rparr>"

abbreviation switch_final :: sim_state where
  "switch_final \<equiv>
     \<lparr>t_cur = 2, S_cur = 337383 / 400, I_cur = 53217 / 400, R_cur = 47 / 2,
      current_phase = Hammer, phase_start_time = 0, t_list = [0, 1],
      S_list = [900, 855], I_list = [100, 135], R_list = [0, 10],
      phase_list = [Dance, Hammer],
      transition_points = [(0, Dance_to_hammer, 100)]\<rparr>"

abbreviation fading_model :: HammerDanceModel where
  "fading_model \<equiv> init 1000 (3/10) 0 0 0 (1/2)"

abbreviation fading_step :: sim_state where
  "fading_step \<equiv>
     \<lparr>t_cur = 1, S_cur = 9997 / 10, I_cur = 3 / 20, R_cur = 3 / 20,
      current_phase = Dance, phase_start_time = 0, t_list = [0],
      S_list = [9997 / 10], I_list = [3 / 10], R_list = [0], phase_list = [Dance],
      transition_points = []\<rparr>"

abbreviation fading_final :: sim_state where
  "fading_final \<equiv>
     \<lparr>t_cur = 2, S_cur = 9997 / 10, I_cur = 3 / 40, R_cur = 9 / 40,
      current_phase = Dance, phase_start_time = 0, t_list = [0, 1],
      S_list = [9997 / 10, 9997 / 10], I_list = [3 / 10, 3 / 20], R_list = [0, 3 / 20],
      phase_list = [Dance, Dance], transition_points = []\<rparr>"

text \<open>
  Two runs on the edge of the step budget. In the first the infected count halves at each
  step and falls below 0.1 in the second step, at time 2, with \<open>max_days = 2.5\<close> and
  \<open>dt = 1\<close>: the double quotient is 2.5 and the budget is two steps. In the second nothing
  changes from step to step; \<open>max_days\<close> is 1 and \<open>dt\<close> is the double nearest to one tenth,
  \<open>3602879701896397 / 2 ^ 55\<close>, which is above one tenth. The exact quotient of the two is
  below 10 by less than \<open>2 ^ -50\<close>, half the distance \<open>2 ^ -49\<close> between neighbouring doubles
  from 8 to 16, so the double that \<^verbatim>\<open>max_days / dt\<close> evaluates to is 10.
\<close>

abbreviation edge_model :: HammerDanceModel where
  "edge_model \<equiv> init 1024 (1/4) 0 0 0 (1/2)"

abbreviation edge_final :: sim_state where
  "edge_final \<equiv>
     \<lparr>t_cur = 2, S_cur = 4095 / 4, I_cur = 1 / 16, R_cur = 3 / 16,
      current_phase = Dance, phase_start_time = 0, t_list = [0, 1],
      S_list = [4095 / 4, 4095 / 4], I_list = [1 / 4, 1 / 8], R_list = [0, 1 / 8],
      phase_list = [Dance, Dance], transition_points = []\<rparr>"




section \<open>Facts about the Euler step and the loop body\<close>

lemma euler_step_sum:
  "euler_step self s i r beta dt = Inr (s', i', r') \<Longrightarrow> s' + i' + r' = s + i + r"
  by (auto simp: euler_step_def sir_derivatives_def Let_def algebra_simps split: if_splits)

lemma euler_step_total: "N self \<noteq> 0 \<Longrightarrow> \<exists>x. euler_step self s i r beta dt = Inr x"
  by (simp add: euler_step_def sir_derivatives_def Let_def)

text \<open>What a completed pass through the loop body has done to each local.\<close>

lemma loop_body_Inr:
  assumes "loop_body self ht dth dt st = Inr st'"
  shows "t_list st' = t_list st @ [t_cur st]"
    and "S_list st' = S_list st @ [S_cur st]"
    and "I_list st' = I_list st @ [I_cur st]"
    and "R_list st' = R_list st @ [R_cur st]"
    and "phase_list st' = phase_list st @ [current_phase st]"
    and "t_cur st' = t_cur st + dt"
    and "euler_step self (S_cur st) (I_cur st) (R_cur st) (rate_of self (current_phase st)) dt
           = Inr (S_cur st', I_cur st', R_cur st')"
    and "current_phase st' = next_phase ht dth (current_phase st) (I_cur st)"
    and "transition_points st' = transition_points st @
           (if current_phase st' \<noteq> current_phase st
            then [(t_cur st, kind_from (current_phase st), I_cur st)] else [])"
  using assms
  by (auto simp: loop_body_def record_state_def rate_of_def next_phase_def kind_from_def Let_def
      split: phase.splits sum.splits if_splits)

lemma loop_body_total:
  "N self \<noteq> 0 \<Longrightarrow> \<exists>st'. loop_body self ht dth dt st = Inr st'"
  by (auto simp: loop_body_def euler_step_def sir_derivatives_def Let_def split: phase.splits)

subsection \<open>The body keeps the invariants\<close>

lemma nth_snoc_old: "k < length xs \<Longrightarrow> (xs @ [a]) ! k = xs ! k"
  by (simp add: nth_append)

lemma nth_snoc_snoc: "k \<le> length xs \<Longrightarrow> ((xs @ [a]) @ [b]) ! k = (xs @ [a]) ! k"
  by (simp add: nth_append)

lemma aligned_body: "aligned st \<Longrightarrow> loop_body self ht dth dt st = Inr st' \<Longrightarrow> aligned st'"
  by (simp add: aligned_def loop_body_Inr(1-5))

lemma timed_body: "timed dt st \<Longrightarrow> loop_body self ht dth dt st = Inr st' \<Longrightarrow> timed dt st'"
  unfolding timed_def
  by (auto simp: loop_body_Inr(1,6) nth_append less_Suc_eq algebra_simps)

lemma chained_body:
  assumes "aligned st" "chained self ht dth dt st" "loop_body self ht dth dt st = Inr st'"
  shows "chained self ht dth dt st'"
  unfolding chained_def
proof (intro allI impI)
  fix k assume "k < length (t_list st')"
  then have k: "k < length (t_list st) \<or> k = length (t_list st)"
    by (auto simp: loop_body_Inr(1)[OF assms(3)])
  note b = loop_body_Inr[OF assms(3)]
  from k show "euler_step self (S_list st' ! k) (I_list st' ! k) (R_list st' ! k)
            (rate_of self (phase_list st' ! k)) dt =
          Inr ((S_list st' @ [S_cur st']) ! Suc k, (I_list st' @ [I_cur st']) ! Suc k,
               (R_list st' @ [R_cur st']) ! Suc k) \<and>
        (phase_list st' @ [current_phase st']) ! Suc k =
          next_phase ht dth (phase_list st' ! k) (I_list st' ! k)"
  proof
    assume kl: "k < length (t_list st)"
    with assms(2) have "euler_step self (S_list st ! k) (I_list st ! k) (R_list st ! k)
            (rate_of self (phase_list st ! k)) dt =
          Inr ((S_list st @ [S_cur st]) ! Suc k, (I_list st @ [I_cur st]) ! Suc k,
               (R_list st @ [R_cur st]) ! Suc k) \<and>
        (phase_list st @ [current_phase st]) ! Suc k =
          next_phase ht dth (phase_list st ! k) (I_list st ! k)"
      unfolding chained_def by blast
    with assms(1) kl show ?thesis
      by (simp add: b(1-5) aligned_def nth_snoc_old nth_snoc_snoc del: append_assoc)
  next
    assume "k = length (t_list st)"
    with assms(1) show ?thesis
      by (simp add: b aligned_def nth_append)
  qed
qed

lemma started_body:
  "started self st \<Longrightarrow> loop_body self ht dth dt st = Inr st' \<Longrightarrow> started self st'"
  by (cases "S_list st"; cases "I_list st"; cases "R_list st"; cases "phase_list st")
     (simp_all add: started_def loop_body_Inr(1-5))

lemma alive_body:
  "alive st \<Longrightarrow> length (I_list st) = 0 \<or> \<not> I_cur st < 0.1 \<Longrightarrow>
   loop_body self ht dth dt st = Inr st' \<Longrightarrow> alive st'"
  unfolding alive_def
  by (auto simp: loop_body_Inr(3) nth_append less_Suc_eq)

lemma run_inv_initial: "run_inv self ht dth dt (initial_state self)"
  by (simp add: run_inv_def aligned_def timed_def chained_def started_def alive_def
      initial_state_def)

lemma run_inv_body:
  "run_inv self ht dth dt st \<Longrightarrow> length (I_list st) = 0 \<or> \<not> I_cur st < 0.1 \<Longrightarrow>
   loop_body self ht dth dt st = Inr st' \<Longrightarrow> run_inv self ht dth dt st'"
  unfolding run_inv_def
  by (intro conjI) (erule conjE aligned_body timed_body chained_body started_body alive_body
      | assumption)+

lemma expected_log_snoc:
  "expected_log (rows @ [(t, i, ph)]) final =
     expected_log rows ph @ (if final \<noteq> ph then [(t, kind_from ph, i)] else [])"
proof (induction rows)
  case Nil
  then show ?case by simp
next
  case (Cons row rows)
  obtain t' i' ph' where row: "row = (t', i', ph')" by (cases row) auto
  show ?case
    using Cons.IH by (cases rows) (auto simp: row Let_def)
qed

lemma logged_body:
  assumes "aligned st" "logged st" "loop_body self ht dth dt st = Inr st'"
  shows "logged st'"
proof -
  note b = loop_body_Inr[OF assms(3)]
  have z: "zip (t_list st') (zip (I_list st') (phase_list st')) =
           zip (t_list st) (zip (I_list st) (phase_list st)) @ [(t_cur st, I_cur st, current_phase st)]"
    using assms(1) by (simp add: b(1,3,5) aligned_def)
  show ?thesis
    unfolding logged_def z expected_log_snoc
    using assms(2) b(9) by (simp add: logged_def)
qed

section \<open>Facts about the loop\<close>

lemma for_loop_inv:
  "run_inv self ht dth dt st \<Longrightarrow> length (I_list st) = 0 \<or> \<not> I_cur st < 0.1 \<Longrightarrow>
   for_loop self ht dth dt n st = Inr fin \<Longrightarrow> run_inv self ht dth dt fin"
proof (induction n arbitrary: st)
  case 0
  then show ?case by simp
next
  case (Suc n)
  from Suc.prems(3) obtain st' where b: "loop_body self ht dth dt st = Inr st'"
    by (auto split: sum.splits)
  have inv': "run_inv self ht dth dt st'"
    using run_inv_body[OF Suc.prems(1,2) b] .
  show ?case
  proof (cases "I_cur st' < 0.1")
    case True
    with Suc.prems(3) b inv' show ?thesis by simp
  next
    case False
    with Suc.prems(3) b have "for_loop self ht dth dt n st' = Inr fin" by simp
    with Suc.IH[OF inv'] False show ?thesis by blast
  qed
qed


lemma for_loop_count:
  "for_loop self ht dth dt n st = Inr fin \<Longrightarrow>
   length (t_list st) \<le> length (t_list fin) \<and>
   length (t_list fin) \<le> length (t_list st) + n \<and>
   (length (t_list fin) < length (t_list st) + n \<longrightarrow> I_cur fin < 0.1)"
proof (induction n arbitrary: st)
  case 0
  then show ?case by simp
next
  case (Suc n)
  from Suc.prems obtain st' where b: "loop_body self ht dth dt st = Inr st'"
    by (auto split: sum.splits)
  have len: "length (t_list st') = Suc (length (t_list st))"
    by (simp add: loop_body_Inr(1)[OF b])
  show ?case
  proof (cases "I_cur st' < 0.1")
    case True
    with Suc.prems b len show ?thesis by simp
  next
    case False
    with Suc.prems b have "for_loop self ht dth dt n st' = Inr fin" by simp
    from Suc.IH[OF this] len show ?thesis by simp
  qed
qed

lemma for_loop_progress:
  assumes "for_loop self ht dth dt (Suc n) st = Inr fin"
  shows "length (t_list st) < length (t_list fin)"
proof -
  from assms obtain st' where b: "loop_body self ht dth dt st = Inr st'"
    by (auto split: sum.splits)
  have len: "length (t_list st') = Suc (length (t_list st))"
    by (simp add: loop_body_Inr(1)[OF b])
  show ?thesis
  proof (cases "I_cur st' < 0.1")
    case True
    with assms b len show ?thesis by simp
  next
    case False
    with assms b have "for_loop self ht dth dt n st' = Inr fin" by simp
    from for_loop_count[OF this] len show ?thesis by simp
  qed
qed

lemma for_loop_extinct_stable:
  "for_loop self ht dth dt (Suc k) st = Inr fin \<Longrightarrow> I_cur fin < 0.1 \<Longrightarrow>
   for_loop self ht dth dt (Suc k + j) st = Inr fin"
proof (induction k arbitrary: st)
  case 0
  then show ?case by (auto split: sum.splits if_splits)
next
  case (Suc k)
  from Suc.prems(1) obtain st' where b: "loop_body self ht dth dt st = Inr st'"
    by (auto split: sum.splits)
  show ?case
  proof (cases "I_cur st' < 0.1")
    case True
    with Suc.prems b show ?thesis by simp
  next
    case False
    with Suc.prems b have "for_loop self ht dth dt (Suc k) st' = Inr fin" by simp
    from Suc.IH[OF this Suc.prems(2)] b False show ?thesis by simp
  qed
qed

lemma for_loop_log_extends:
  "for_loop self ht dth dt n st = Inr fin \<Longrightarrow>
   \<exists>new. transition_points fin = transition_points st @ new"
proof (induction n arbitrary: st)
  case 0
  then show ?case by simp
next
  case (Suc n)
  from Suc.prems obtain st' where b: "loop_body self ht dth dt st = Inr st'"
    by (auto split: sum.splits)
  from loop_body_Inr(9)[OF b] obtain a where a: "transition_points st' = transition_points st @ a"
    by blast
  show ?case
  proof (cases "I_cur st' < 0.1")
    case True
    with Suc.prems b a show ?thesis by simp
  next
    case False
    with Suc.prems b have "for_loop self ht dth dt n st' = Inr fin" by simp
    from Suc.IH[OF this] a show ?thesis by auto
  qed
qed

lemma for_loop_logged:
  "aligned st \<Longrightarrow> logged st \<Longrightarrow> for_loop self ht dth dt n st = Inr fin \<Longrightarrow> logged fin"
proof (induction n arbitrary: st)
  case 0
  then show ?case by simp
next
  case (Suc n)
  from Suc.prems(3) obtain st' where b: "loop_body self ht dth dt st = Inr st'"
    by (auto split: sum.splits)
  have a': "aligned st'" and l': "logged st'"
    using aligned_body[OF Suc.prems(1) b] logged_body[OF Suc.prems(1,2) b] by blast+
  show ?case
  proof (cases "I_cur st' < 0.1")
    case True
    with Suc.prems(3) b l' show ?thesis by simp
  next
    case False
    with Suc.prems(3) b have "for_loop self ht dth dt n st' = Inr fin" by simp
    from Suc.IH[OF a' l' this] show ?thesis .
  qed
qed

lemma for_loop_lists_extend:
  "for_loop self ht dth dt n st = Inr fin \<Longrightarrow>
   (\<exists>xs. t_list fin = t_list st @ xs) \<and> (\<exists>xs. S_list fin = S_list st @ xs) \<and>
   (\<exists>xs. I_list fin = I_list st @ xs) \<and> (\<exists>xs. R_list fin = R_list st @ xs) \<and>
   (\<exists>xs. phase_list fin = phase_list st @ xs)"
proof (induction n arbitrary: st)
  case 0
  then show ?case by simp
next
  case (Suc n)
  from Suc.prems obtain st' where b: "loop_body self ht dth dt st = Inr st'"
    by (auto split: sum.splits)
  note e = loop_body_Inr(1-5)[OF b]
  show ?case
  proof (cases "I_cur st' < 0.1")
    case True
    with Suc.prems b e show ?thesis by simp
  next
    case False
    with Suc.prems b have "for_loop self ht dth dt n st' = Inr fin" by simp
    from Suc.IH[OF this] show ?thesis unfolding e by auto
  qed
qed

lemma nth_extend: "xs' = (xs @ [a]) @ ys \<Longrightarrow> length xs = n \<Longrightarrow> xs' ! n = a"
  by (simp add: nth_append)

lemma for_loop_first_entry:
  assumes "aligned st" "for_loop self ht dth dt (Suc n) st = Inr fin"
  shows "t_list fin ! length (t_list st) = t_cur st \<and>
         S_list fin ! length (t_list st) = S_cur st \<and>
         I_list fin ! length (t_list st) = I_cur st \<and>
         R_list fin ! length (t_list st) = R_cur st \<and>
         phase_list fin ! length (t_list st) = current_phase st"
proof -
  from assms(2) obtain st' where b: "loop_body self ht dth dt st = Inr st'"
    by (auto split: sum.splits)
  note e = loop_body_Inr(1-5)[OF b]
  have "(\<exists>xs. t_list fin = t_list st' @ xs) \<and> (\<exists>xs. S_list fin = S_list st' @ xs) \<and>
   (\<exists>xs. I_list fin = I_list st' @ xs) \<and> (\<exists>xs. R_list fin = R_list st' @ xs) \<and>
   (\<exists>xs. phase_list fin = phase_list st' @ xs)"
  proof (cases "I_cur st' < 0.1")
    case True
    with assms(2) b show ?thesis by simp
  next
    case False
    with assms(2) b have "for_loop self ht dth dt n st' = Inr fin" by simp
    from for_loop_lists_extend[OF this] show ?thesis .
  qed
  then show ?thesis
    unfolding e using assms(1) by (auto simp: aligned_def intro: nth_extend)
qed

lemma for_loop_entry_is_start_state:
  "aligned st \<Longrightarrow> for_loop self ht dth dt n st = Inr fin \<Longrightarrow>
   length (t_list st) + k < length (t_list fin) \<Longrightarrow>
   \<exists>stk. for_loop self ht dth dt k st = Inr stk \<and>
     t_cur stk = t_list fin ! (length (t_list st) + k) \<and>
     S_cur stk = S_list fin ! (length (t_list st) + k) \<and>
     I_cur stk = I_list fin ! (length (t_list st) + k) \<and>
     R_cur stk = R_list fin ! (length (t_list st) + k) \<and>
     current_phase stk = phase_list fin ! (length (t_list st) + k)"
proof (induction n arbitrary: st k)
  case 0
  then show ?case by simp
next
  case (Suc n)
  from Suc.prems(2) obtain st' where b: "loop_body self ht dth dt st = Inr st'"
    by (auto split: sum.splits)
  have len: "length (t_list st') = Suc (length (t_list st))"
    by (simp add: loop_body_Inr(1)[OF b])
  show ?case
  proof (cases k)
    case 0
    with for_loop_first_entry[OF Suc.prems(1,2)] show ?thesis by simp
  next
    case (Suc k')
    have alive: "\<not> I_cur st' < 0.1"
    proof
      assume "I_cur st' < 0.1"
      with Suc.prems(2) b have "fin = st'" by simp
      with Suc.prems(3) len Suc show False by simp
    qed
    with Suc.prems(2) b have run: "for_loop self ht dth dt n st' = Inr fin" by simp
    have "length (t_list st') + k' < length (t_list fin)"
      using Suc.prems(3) len Suc by simp
    from Suc.IH[OF aligned_body[OF Suc.prems(1) b] run this]
    show ?thesis using b alive len Suc by simp
  qed
qed

subsection \<open>The whole function\<close>



lemma simulate_run_loop:
  "simulate_run ratio self max_days ht dth dt = Inr fin \<longleftrightarrow>
   dt \<noteq> 0 \<and>
   (\<exists>steps. py_int ratio = Inr steps \<and>
      for_loop self ht dth dt (nat steps) (initial_state self) = Inr fin)"
  by (auto simp: simulate_run_def split: sum.splits)

lemma simulate_run_for_loop:
  "simulate_run ratio self max_days ht dth dt = Inr fin \<Longrightarrow>
   \<exists>n. for_loop self ht dth dt n (initial_state self) = Inr fin"
  by (auto simp: simulate_run_loop)

lemma simulate_returns:
  "simulate_dynamic_hammer_dance ratio self max_days ht dth hdur ddur dt = Inr res \<longleftrightarrow>
   (\<exists>fin. simulate_run ratio self max_days ht dth dt = Inr fin \<and>
      res = (t_list fin, S_list fin, I_list fin, R_list fin, phase_list fin,
             transition_points fin))"
  by (auto simp: simulate_dynamic_hammer_dance_def split: sum.splits)

lemma simulate_run_inv:
  assumes "simulate_run ratio self max_days ht dth dt = Inr fin"
  shows "run_inv self ht dth dt fin"
proof -
  from simulate_run_for_loop[OF assms]
  obtain n where "for_loop self ht dth dt n (initial_state self) = Inr fin" by blast
  from for_loop_inv[OF run_inv_initial _ this] show ?thesis
    by (simp add: initial_state_def)
qed

lemma simulate_run_entry:
  assumes "simulate_run ratio self max_days ht dth dt = Inr fin" "k < length (t_list fin)"
  shows "\<exists>stk. for_loop self ht dth dt k (initial_state self) = Inr stk \<and>
     t_cur stk = t_list fin ! k \<and> S_cur stk = S_list fin ! k \<and> I_cur stk = I_list fin ! k \<and>
     R_cur stk = R_list fin ! k \<and> current_phase stk = phase_list fin ! k"
proof -
  from simulate_run_for_loop[OF assms(1)]
  obtain n where run: "for_loop self ht dth dt n (initial_state self) = Inr fin" by blast
  have al: "aligned (initial_state self)" by (simp add: aligned_def initial_state_def)
  have "length (t_list (initial_state self)) + k < length (t_list fin)"
    using assms(2) by (simp add: initial_state_def)
  from for_loop_entry_is_start_state[OF al run this] show ?thesis
    by (simp add: initial_state_def)
qed

lemma run_inv_sum:
  assumes "run_inv self ht dth dt st" "k \<le> length (t_list st)"
  shows "(S_list st @ [S_cur st]) ! k + (I_list st @ [I_cur st]) ! k + (R_list st @ [R_cur st]) ! k
           = S0 self + I0 self + R0 self"
  using assms(2)
proof (induction k)
  case 0
  with assms(1) show ?case by (simp add: run_inv_def started_def)
next
  case (Suc k)
  then have k: "k < length (t_list st)" by simp
  from assms(1) have al: "aligned st" and ch: "chained self ht dth dt st"
    by (simp_all add: run_inv_def)
  from ch k have "euler_step self (S_list st ! k) (I_list st ! k) (R_list st ! k)
            (rate_of self (phase_list st ! k)) dt =
          Inr ((S_list st @ [S_cur st]) ! Suc k, (I_list st @ [I_cur st]) ! Suc k,
               (R_list st @ [R_cur st]) ! Suc k)"
    unfolding chained_def by blast
  from euler_step_sum[OF this] Suc.IH k al show ?case
    by (simp add: aligned_def nth_snoc_old)
qed

lemma run_inv_phase:
  assumes "run_inv self ht dth dt st" "k < length (phase_list st)"
  shows "(phase_list st @ [current_phase st]) ! Suc k =
           next_phase ht dth (phase_list st ! k) (I_list st ! k)"
  using assms unfolding run_inv_def chained_def aligned_def by simp

lemma run_inv_euler:
  assumes "run_inv self ht dth dt st" "k < length (phase_list st)"
  shows "euler_step self (S_list st ! k) (I_list st ! k) (R_list st ! k)
            (rate_of self (phase_list st ! k)) dt =
          Inr ((S_list st @ [S_cur st]) ! Suc k, (I_list st @ [I_cur st]) ! Suc k,
               (R_list st @ [R_cur st]) ! Suc k)"
  using assms unfolding run_inv_def chained_def aligned_def by simp

lemma hammer_holds:
  assumes "run_inv self ht dth dt st"
    and "(phase_list st @ [current_phase st]) ! j = Hammer"
    and "\<forall>i. j \<le> i \<and> i < k \<longrightarrow> \<not> I_list st ! i < dth"
    and "j \<le> k" "k \<le> length (phase_list st)"
  shows "(phase_list st @ [current_phase st]) ! k = Hammer"
  using assms(3-5)
proof (induction k)
  case 0
  with assms(2) show ?case by simp
next
  case (Suc k)
  show ?case
  proof (cases "j = Suc k")
    case True
    with assms(2) show ?thesis by simp
  next
    case False
    with Suc.prems have jk: "j \<le> k" and kl: "k < length (phase_list st)" by simp_all
    from Suc.prems(1) have "\<forall>i. j \<le> i \<and> i < k \<longrightarrow> \<not> I_list st ! i < dth" by simp
    from Suc.IH[OF this jk] kl have "phase_list st ! k = Hammer"
      by (simp add: nth_snoc_old)
    moreover from Suc.prems(1) jk have "\<not> I_list st ! k < dth" by simp
    ultimately show ?thesis
      using run_inv_phase[OF assms(1) kl] by (simp add: next_phase_def)
  qed
qed

lemma dance_holds:
  assumes "run_inv self ht dth dt st"
    and "(phase_list st @ [current_phase st]) ! j = Dance"
    and "\<forall>i. j \<le> i \<and> i < k \<longrightarrow> \<not> I_list st ! i > ht"
    and "j \<le> k" "k \<le> length (phase_list st)"
  shows "(phase_list st @ [current_phase st]) ! k = Dance"
  using assms(3-5)
proof (induction k)
  case 0
  with assms(2) show ?case by simp
next
  case (Suc k)
  show ?case
  proof (cases "j = Suc k")
    case True
    with assms(2) show ?thesis by simp
  next
    case False
    with Suc.prems have jk: "j \<le> k" and kl: "k < length (phase_list st)" by simp_all
    from Suc.prems(1) have "\<forall>i. j \<le> i \<and> i < k \<longrightarrow> \<not> I_list st ! i > ht" by simp
    from Suc.IH[OF this jk] kl have "phase_list st ! k = Dance"
      by (simp add: nth_snoc_old)
    moreover from Suc.prems(1) jk have "\<not> I_list st ! k > ht" by simp
    ultimately show ?thesis
      using run_inv_phase[OF assms(1) kl] by (simp add: next_phase_def)
  qed
qed

subsection \<open>The two runs, evaluated\<close>

lemmas run_defs = simulate_run_def py_int_def loop_body_def record_state_def
  initial_state_def init_def euler_step_def sir_derivatives_def Let_def

lemma body_switch:
  "loop_body switch_model 50 20 1 (initial_state switch_model) = Inr switch_step"
  by (simp add: run_defs)

lemma body_switch_second:
  "loop_body switch_model 50 20 1 switch_step = Inr switch_final"
  by (simp add: run_defs)

lemma loop_switch:
  "for_loop switch_model 50 20 1 (Suc (Suc 0)) (initial_state switch_model) = Inr switch_final"
  by (simp add: body_switch body_switch_second)

lemma run_switch: "simulate_run (Finite 2) switch_model 2 50 20 1 = Inr switch_final"
  using loop_switch by (simp add: simulate_run_def py_int_def numeral_2_eq_2)

lemma simulate_switch:
  "simulate_dynamic_hammer_dance (Finite 2) switch_model 2 50 20 None None 1 =
     Inr ([0, 1], [900, 855], [100, 135], [0, 10], [Dance, Hammer],
          [(0, Dance_to_hammer, 100)])"
  by (simp add: simulate_dynamic_hammer_dance_def run_switch)

lemma euler_switch_hammer:
  "euler_step switch_model 900 100 0 (beta_hammer switch_model) 1 = Inr (891, 99, 10)"
  by (simp add: run_defs)

lemma body_fading:
  "loop_body fading_model 50 20 1 (initial_state fading_model) = Inr fading_step"
  by (simp add: run_defs)

lemma body_fading_second:
  "loop_body fading_model 50 20 1 fading_step = Inr fading_final"
  by (simp add: run_defs)

lemma loop_fading:
  "for_loop fading_model 50 20 1 (Suc (Suc 0)) (initial_state fading_model) = Inr fading_final"
  by (simp add: body_fading body_fading_second)

lemma run_fading: "simulate_run (Finite 5) fading_model 5 50 20 1 = Inr fading_final"
  by (simp add: simulate_run_def py_int_def eval_nat_numeral body_fading body_fading_second)


lemma run_edge: "simulate_run (Finite (5/2)) edge_model (5/2) 50 20 1 = Inr edge_final"
  by (simp add: run_defs eval_nat_numeral)


section \<open>The properties\<close>

text \<open>
  C1, as amended. On every pass through the loop body that completes, the Euler step is
  taken at the rate of the phase the step began with: \<open>beta_dance\<close> when it began in dance,
  \<open>beta_hammer\<close> when it began in hammer, whatever the transition decision of the step was.
  The body completes whenever the population size is not zero.
\<close>

theorem rate_follows_entry_phase:
  "(N self \<noteq> 0 \<longrightarrow> (\<exists>st'. loop_body self ht dth dt st = Inr st')) \<and>
   (loop_body self ht dth dt st = Inr st' \<longrightarrow>
      euler_step self (S_cur st) (I_cur st) (R_cur st)
          (case current_phase st of Dance \<Rightarrow> beta_dance self | Hammer \<Rightarrow> beta_hammer self) dt
        = Inr (S_cur st', I_cur st', R_cur st'))"
  using loop_body_total[of self ht dth dt st] loop_body_Inr(7)[of self ht dth dt st st']
  by (simp add: rate_of_def)

theorem rate_follows_entry_phase_witness:
  "N switch_model \<noteq> 0 \<and>
   loop_body switch_model 50 20 1 (initial_state switch_model) = Inr switch_step \<and>
   current_phase (initial_state switch_model) = Dance \<and>
   euler_step switch_model 900 100 0 (beta_dance switch_model) 1
     = Inr (S_cur switch_step, I_cur switch_step, R_cur switch_step)"
proof -
  have n: "N switch_model \<noteq> 0" by (simp add: init_def)
  from rate_follows_entry_phase[of switch_model 50 20 1 "initial_state switch_model" switch_step]
    body_switch
  have "euler_step switch_model 900 100 0 (beta_dance switch_model) 1
          = Inr (S_cur switch_step, I_cur switch_step, R_cur switch_step)"
    by (simp add: initial_state_def init_def)
  with n body_switch show ?thesis by (simp add: initial_state_def)
qed

text \<open>
  C1 as it was stated fails on the step that switches: the step below begins in dance
  with 100 infected, above the threshold 50; the phase becomes hammer, and the state it
  produces is not the one an Euler step at \<open>beta_hammer\<close> gives.
\<close>

theorem rate_on_switch_counterexample:
  "loop_body switch_model 50 20 1 (initial_state switch_model) = Inr switch_step \<and>
   current_phase switch_step = Hammer \<and>
   euler_step switch_model (S_cur (initial_state switch_model))
       (I_cur (initial_state switch_model)) (R_cur (initial_state switch_model))
       (beta_hammer switch_model) 1
     \<noteq> Inr (S_cur switch_step, I_cur switch_step, R_cur switch_step)"
  using body_switch euler_switch_hammer by (simp add: initial_state_def init_def)

text \<open>
  C2. For every state, every rate and every model with a positive population,
  \<^verbatim>\<open>sir_derivatives\<close> returns exactly the triple
  \<open>(- \<beta> (S/N) (I/N) N, \<beta> (S/N) (I/N) N - \<gamma> I, \<gamma> I)\<close>.
\<close>

theorem sir_derivatives_formula:
  assumes "0 < N self"
  shows "sir_derivatives self s i r beta =
           Inr (- beta * (s / N self) * (i / N self) * N self,
                beta * (s / N self) * (i / N self) * N self - gamma self * i,
                gamma self * i)"
  using assms by (simp add: sir_derivatives_def Let_def algebra_simps)

theorem sir_derivatives_formula_witness:
  "0 < N switch_model \<and>
   sir_derivatives switch_model 900 100 0 (1/2) = Inr (- 45, 35, 10)"
  using sir_derivatives_formula [of switch_model 900 100 0 "1/2"]
  by (simp add: init_def)

text \<open>
  C3. An Euler step that returns leaves \<open>S + I + R\<close> as it was, for every state, rate and
  step size (and it returns unless the population size is zero). Hence in every series that
  \<^verbatim>\<open>simulate_dynamic_hammer_dance\<close> returns for a model built by the constructor, each
  recorded row sums to the population size \<open>n\<close>.
\<close>

theorem population_conserved:
  "(N self \<noteq> 0 \<longrightarrow> (\<exists>x. euler_step self s i r beta dt = Inr x)) \<and>
   (euler_step self s i r beta dt = Inr (s', i', r') \<longrightarrow> s' + i' + r' = s + i + r) \<and>
   (simulate_dynamic_hammer_dance ratio (init n i0 r0 bh bd g) max_days ht dth hdur ddur dt
        = Inr (ts, Ss, Is, Rs, ps, tr) \<longrightarrow>
      length Ss = length ts \<and> length Is = length ts \<and> length Rs = length ts \<and>
      (\<forall>k < length ts. Ss ! k + Is ! k + Rs ! k = n))"
proof (intro conjI impI)
  assume "N self \<noteq> 0"
  then show "\<exists>x. euler_step self s i r beta dt = Inr x" by (rule euler_step_total)
next
  assume "euler_step self s i r beta dt = Inr (s', i', r')"
  then show "s' + i' + r' = s + i + r" by (rule euler_step_sum)
next
  let ?m = "init n i0 r0 bh bd g"
  assume "simulate_dynamic_hammer_dance ratio ?m max_days ht dth hdur ddur dt
            = Inr (ts, Ss, Is, Rs, ps, tr)"
  then obtain fin where run: "simulate_run ratio ?m max_days ht dth dt = Inr fin"
    and res: "ts = t_list fin" "Ss = S_list fin" "Is = I_list fin" "Rs = R_list fin"
    by (auto simp: simulate_returns)
  have inv: "run_inv ?m ht dth dt fin" using run by (rule simulate_run_inv)
  then have al: "aligned fin" by (simp add: run_inv_def)
  from al show "length Ss = length ts" "length Is = length ts" "length Rs = length ts"
    by (simp_all add: res aligned_def)
  show "\<forall>k < length ts. Ss ! k + Is ! k + Rs ! k = n"
  proof (intro allI impI)
    fix k assume k: "k < length ts"
    with run_inv_sum[OF inv, of k] al show "Ss ! k + Is ! k + Rs ! k = n"
      by (simp add: res aligned_def nth_snoc_old init_def)
  qed
qed

theorem population_conserved_witness:
  "N switch_model \<noteq> 0 \<and>
   euler_step switch_model 900 100 0 (1/2) 1 = Inr (855, 135, 10) \<and>
   (855 :: real) + 135 + 10 = 900 + 100 + 0 \<and>
   simulate_dynamic_hammer_dance (Finite 2) switch_model 2 50 20 None None 1 =
     Inr ([0, 1], [900, 855], [100, 135], [0, 10], [Dance, Hammer],
          [(0, Dance_to_hammer, 100)]) \<and>
   [900, 855] ! 1 + [100, 135] ! 1 + [0, 10] ! 1 = (1000 :: real)"
proof -
  have e: "euler_step switch_model 900 100 0 (1/2) 1 = Inr (855, 135, 10)"
    by (simp add: run_defs)
  have n: "N switch_model \<noteq> 0" by (simp add: init_def)
  note inst = population_conserved[of switch_model 900 100 0 "1/2" 1 855 135 10
      "Finite 2" 1000 100 0 "1/10" "1/2" "1/10" 2 50 20 None None
      "[0, 1]" "[900, 855]" "[100, 135]" "[0, 10]" "[Dance, Hammer]"
      "[(0, Dance_to_hammer, 100)]"]
  from inst e have s: "(855 :: real) + 135 + 10 = 900 + 100 + 0" by blast
  from inst simulate_switch
  have "\<forall>k < length [0, 1 :: real]. [900, 855] ! k + [100, 135] ! k + [0, 10] ! k = (1000 :: real)"
    by blast
  then have "[900, 855] ! 1 + [100, 135] ! 1 + [0, 10] ! 1 = (1000 :: real)"
    by simp
  with e n s simulate_switch show ?thesis by blast
qed

text \<open>
  C4. The loop starts in dance. A pass through the body leaves dance for hammer exactly when
  the infected count it began with exceeds the hammer threshold, and leaves hammer for dance
  exactly when that count is below the dance threshold. In a finished run the phase recorded
  first is dance and each recorded phase leads to the next one (the last to the phase the
  loop ends in) by that table; so hammer lasts while no step begins with a count below the
  dance threshold, and dance lasts while no step begins with a count above the hammer
  threshold.
\<close>

theorem phase_state_machine:
  "current_phase (initial_state self) = Dance \<and>
   (loop_body self ht dth dt st = Inr st' \<longrightarrow>
      current_phase st' =
        (case current_phase st of
           Dance \<Rightarrow> if I_cur st > ht then Hammer else Dance
         | Hammer \<Rightarrow> if I_cur st < dth then Dance else Hammer)) \<and>
   (simulate_run ratio self max_days ht dth dt = Inr fin \<longrightarrow>
      (phase_list fin @ [current_phase fin]) ! 0 = Dance \<and>
      (\<forall>k < length (phase_list fin).
         (phase_list fin @ [current_phase fin]) ! Suc k =
           (case phase_list fin ! k of
              Dance \<Rightarrow> if I_list fin ! k > ht then Hammer else Dance
            | Hammer \<Rightarrow> if I_list fin ! k < dth then Dance else Hammer)) \<and>
      (\<forall>j k. j \<le> k \<and> k \<le> length (phase_list fin) \<and>
         (phase_list fin @ [current_phase fin]) ! j = Hammer \<and>
         (\<forall>i. j \<le> i \<and> i < k \<longrightarrow> \<not> I_list fin ! i < dth) \<longrightarrow>
         (phase_list fin @ [current_phase fin]) ! k = Hammer) \<and>
      (\<forall>j k. j \<le> k \<and> k \<le> length (phase_list fin) \<and>
         (phase_list fin @ [current_phase fin]) ! j = Dance \<and>
         (\<forall>i. j \<le> i \<and> i < k \<longrightarrow> \<not> I_list fin ! i > ht) \<longrightarrow>
         (phase_list fin @ [current_phase fin]) ! k = Dance))"
proof (intro conjI impI)
  show "current_phase (initial_state self) = Dance" by (simp add: initial_state_def)
next
  assume "loop_body self ht dth dt st = Inr st'"
  from loop_body_Inr(8)[OF this]
  show "current_phase st' =
        (case current_phase st of
           Dance \<Rightarrow> if I_cur st > ht then Hammer else Dance
         | Hammer \<Rightarrow> if I_cur st < dth then Dance else Hammer)"
    by (simp add: next_phase_def)
next
  assume "simulate_run ratio self max_days ht dth dt = Inr fin"
  then have inv: "run_inv self ht dth dt fin" by (rule simulate_run_inv)
  then show "(phase_list fin @ [current_phase fin]) ! 0 = Dance"
    by (simp add: run_inv_def started_def)
  show "\<forall>k < length (phase_list fin).
         (phase_list fin @ [current_phase fin]) ! Suc k =
           (case phase_list fin ! k of
              Dance \<Rightarrow> if I_list fin ! k > ht then Hammer else Dance
            | Hammer \<Rightarrow> if I_list fin ! k < dth then Dance else Hammer)"
    using run_inv_phase[OF inv] by (simp add: next_phase_def)
  show "\<forall>j k. j \<le> k \<and> k \<le> length (phase_list fin) \<and>
         (phase_list fin @ [current_phase fin]) ! j = Hammer \<and>
         (\<forall>i. j \<le> i \<and> i < k \<longrightarrow> \<not> I_list fin ! i < dth) \<longrightarrow>
         (phase_list fin @ [current_phase fin]) ! k = Hammer"
    using hammer_holds[OF inv] by blast
  show "\<forall>j k. j \<le> k \<and> k \<le> length (phase_list fin) \<and>
         (phase_list fin @ [current_phase fin]) ! j = Dance \<and>
         (\<forall>i. j \<le> i \<and> i < k \<longrightarrow> \<not> I_list fin ! i > ht) \<longrightarrow>
         (phase_list fin @ [current_phase fin]) ! k = Dance"
    using dance_holds[OF inv] by blast
qed

theorem phase_state_machine_witness:
  "current_phase (initial_state switch_model) = Dance \<and>
   loop_body switch_model 50 20 1 (initial_state switch_model) = Inr switch_step \<and>
   current_phase switch_step = Hammer \<and>
   simulate_run (Finite 2) switch_model 2 50 20 1 = Inr switch_final \<and>
   (phase_list switch_final @ [current_phase switch_final]) ! Suc 0 = Hammer \<and>
   (phase_list switch_final @ [current_phase switch_final]) ! 2 = Hammer \<and>
   simulate_run (Finite 5) fading_model 5 50 20 1 = Inr fading_final \<and>
   (phase_list fading_final @ [current_phase fading_final]) ! 2 = Dance"
proof -
  note sw = phase_state_machine[of switch_model 50 20 1 "initial_state switch_model"
      switch_step "Finite 2" 2 switch_final]
  note fa = phase_state_machine[of fading_model 50 20 1 "initial_state fading_model"
      fading_step "Finite 5" 5 fading_final]
  from sw have a: "current_phase (initial_state switch_model) = Dance" by blast
  from sw body_switch have b: "current_phase switch_step = Hammer"
    by (simp add: initial_state_def init_def)
  from sw run_switch
  have "\<forall>k < length (phase_list switch_final).
         (phase_list switch_final @ [current_phase switch_final]) ! Suc k =
           (case phase_list switch_final ! k of
              Dance \<Rightarrow> if I_list switch_final ! k > 50 then Hammer else Dance
            | Hammer \<Rightarrow> if I_list switch_final ! k < 20 then Dance else Hammer)"
    by blast
  then have c: "(phase_list switch_final @ [current_phase switch_final]) ! Suc 0 = Hammer"
    by simp
  have quiet: "\<forall>i. Suc 0 \<le> i \<and> i < 2 \<longrightarrow> \<not> I_list switch_final ! i < 20"
    by (auto simp: less_Suc_eq numeral_2_eq_2)
  from sw run_switch
  have "\<forall>j k. j \<le> k \<and> k \<le> length (phase_list switch_final) \<and>
         (phase_list switch_final @ [current_phase switch_final]) ! j = Hammer \<and>
         (\<forall>i. j \<le> i \<and> i < k \<longrightarrow> \<not> I_list switch_final ! i < 20) \<longrightarrow>
         (phase_list switch_final @ [current_phase switch_final]) ! k = Hammer"
    by blast
  from this[rule_format, of "Suc 0" 2] c quiet
  have d: "(phase_list switch_final @ [current_phase switch_final]) ! 2 = Hammer"
    by simp
  have low: "\<forall>i. 0 \<le> i \<and> i < 2 \<longrightarrow> \<not> I_list fading_final ! i > 50"
    by (auto simp: less_Suc_eq numeral_2_eq_2)
  from fa run_fading
  have "\<forall>j k. j \<le> k \<and> k \<le> length (phase_list fading_final) \<and>
         (phase_list fading_final @ [current_phase fading_final]) ! j = Dance \<and>
         (\<forall>i. j \<le> i \<and> i < k \<longrightarrow> \<not> I_list fading_final ! i > 50) \<longrightarrow>
         (phase_list fading_final @ [current_phase fading_final]) ! k = Dance"
    by blast
  from this[rule_format, of 0 2] low
  have e: "(phase_list fading_final @ [current_phase fading_final]) ! 2 = Dance"
    by simp
  from a b c d e body_switch run_switch run_fading show ?thesis by blast
qed

text \<open>
  C5, as amended. At \<open>S = 9000\<close>, \<open>I = 900\<close>, \<open>R = 100\<close> with \<open>N = 10000\<close>, \<open>\<beta> = 0.5\<close> and
  \<open>\<gamma> = 0.1\<close> the derivatives are \<open>dS = -405\<close>, \<open>dI = 315\<close> and \<open>dR = 90\<close>: the infected
  derivative is \<open>405 - 90\<close>, not \<open>360\<close>.
\<close>

theorem sir_derivatives_fixture:
  "sir_derivatives (init 10000 900 100 bh bd (1/10)) 9000 900 100 (1/2) = Inr (- 405, 315, 90)"
  by (simp add: sir_derivatives_def init_def Let_def)

theorem sir_derivatives_fixture_counterexample:
  "sir_derivatives (init 10000 900 100 (1/10) (1/2) (1/10)) 9000 900 100 (1/2)
     \<noteq> Inr (- 405, 360, 90)"
  by (simp add: sir_derivatives_def init_def Let_def)

text \<open>
  C6, as amended. Suppose the integrated infected count is below 0.1 at the end of a step
  that lies within the step budget: the loop run for \<open>k + 1\<close> steps ends in a state \<open>fin\<close>
  with \<open>I < 0.1\<close>, and \<open>k + 1\<close> does not exceed the budget \<open>int(max_days / dt)\<close>. Then the
  whole simulation ends in that very state, so its final infected count is below 0.1, and it
  has recorded at most \<open>k + 1\<close> rows: never more than the budget, and fewer than the
  budget when the step is not the last one the budget allows. The test follows the
  integration and comes before the budget is consulted: a pass through the body that ends
  with \<open>I < 0.1\<close> ends the loop, whatever number of steps remains.
\<close>

theorem extinction_stops_run:
  assumes "dt \<noteq> 0"
    and "py_int ratio = Inr steps"
    and "for_loop self ht dth dt (Suc k) (initial_state self) = Inr fin"
    and "I_cur fin < 0.1"
    and "Suc k \<le> nat steps"
  shows "simulate_run ratio self max_days ht dth dt = Inr fin \<and>
         0 < length (I_list fin) \<and> length (I_list fin) \<le> Suc k \<and>
         length (I_list fin) \<le> nat steps \<and>
         (Suc k < nat steps \<longrightarrow> length (I_list fin) < nat steps) \<and>
         (loop_body self ht dth dt st = Inr st' \<and> I_cur st' < 0.1 \<longrightarrow>
            for_loop self ht dth dt (Suc n) st = Inr st')"
proof -
  from assms(5) obtain j where j: "nat steps = Suc k + j"
    using le_Suc_ex by blast
  from for_loop_extinct_stable[OF assms(3,4), of j] assms(1,2) j
  have run: "simulate_run ratio self max_days ht dth dt = Inr fin"
    by (simp add: simulate_run_def)
  from simulate_run_inv[OF run] have al: "length (I_list fin) = length (t_list fin)"
    by (simp add: run_inv_def aligned_def)
  from for_loop_count[OF assms(3)] for_loop_progress[OF assms(3)]
  have "0 < length (t_list fin)" "length (t_list fin) \<le> Suc k"
    by (simp_all add: initial_state_def)
  with run al assms(5) show ?thesis by simp
qed

theorem extinction_stops_run_witness:
  "(1 :: real) \<noteq> 0 \<and>
   py_int (Finite 5) = Inr 5 \<and>
   for_loop fading_model 50 20 1 (Suc 1) (initial_state fading_model) = Inr fading_final \<and>
   I_cur fading_final < 0.1 \<and>
   Suc 1 < nat 5 \<and>
   simulate_run (Finite 5) fading_model 5 50 20 1 = Inr fading_final \<and>
   length (I_list fading_final) < nat 5 \<and>
   loop_body fading_model 50 20 1 fading_step = Inr fading_final \<and>
   for_loop fading_model 50 20 1 (Suc 0) fading_step = Inr fading_final"
proof -
  have l: "for_loop fading_model 50 20 1 (Suc 1) (initial_state fading_model) = Inr fading_final"
    using loop_fading by simp
  have i: "I_cur fading_final < 0.1" by simp
  have p: "py_int (Finite 5) = Inr 5" by (simp add: py_int_def)
  have s: "Suc 1 < nat 5" "Suc 1 \<le> nat 5" by simp_all
  have d: "(1 :: real) \<noteq> 0" by simp
  note inst = extinction_stops_run[of 1 "Finite 5" 5 fading_model 50 20 1 fading_final 5
      fading_step fading_final 0, OF d p l i s(2)]
  from inst have r: "simulate_run (Finite 5) fading_model 5 50 20 1 = Inr fading_final"
    by simp
  from inst s(1) have c: "length (I_list fading_final) < nat 5" by blast
  from inst body_fading_second i
  have f: "for_loop fading_model 50 20 1 (Suc 0) fading_step = Inr fading_final" by blast
  from p l i s(1) r c f body_fading_second show ?thesis by simp
qed

text \<open>
  C6 as it was stated fails when the infected count falls below 0.1 on the last step of the
  budget while \<open>max_days\<close> has not elapsed: with \<open>max_days = 2.5\<close> and \<open>dt = 1\<close> the budget is
  two steps, the count is below 0.1 at the end of the second step, at time 2, and the run
  has recorded two rows, not fewer than the budget.
\<close>

theorem extinction_on_last_step_counterexample:
  "simulate_run (Finite (5/2)) edge_model (5/2) 50 20 1 = Inr edge_final \<and>
   I_cur edge_final < 0.1 \<and>
   t_cur edge_final < 5/2 \<and>
   length (t_list edge_final) = 2 \<and>
   nat \<lfloor>(5/2) / 1 :: real\<rfloor> = 2"
  using run_edge by simp




text \<open>
  C8. A pass through the body that changes the phase adds one event to the end of the
  transition log: the time and the infected count the step began with, and the kind that
  belongs to the phase it left. A pass that keeps the phase leaves the log as it is. The loop
  only ever extends the log at its end, and the log of a finished run is the list of the
  phase changes of its rows, in order.
\<close>

theorem transition_log_records_switches:
  "(loop_body self ht dth dt st = Inr st' \<longrightarrow>
      transition_points st' = transition_points st @
        (if current_phase st' \<noteq> current_phase st
         then [(t_cur st,
                case current_phase st of Dance \<Rightarrow> Dance_to_hammer
                | Hammer \<Rightarrow> Hammer_to_dance_threshold,
                I_cur st)]
         else [])) \<and>
   (for_loop self ht dth dt n st = Inr fin' \<longrightarrow>
      (\<exists>new. transition_points fin' = transition_points st @ new)) \<and>
   (simulate_run ratio self max_days ht dth dt = Inr fin \<longrightarrow>
      transition_points fin =
        expected_log (zip (t_list fin) (zip (I_list fin) (phase_list fin))) (current_phase fin))"
proof (intro conjI impI)
  assume "loop_body self ht dth dt st = Inr st'"
  from loop_body_Inr(9)[OF this]
  show "transition_points st' = transition_points st @
        (if current_phase st' \<noteq> current_phase st
         then [(t_cur st,
                case current_phase st of Dance \<Rightarrow> Dance_to_hammer
                | Hammer \<Rightarrow> Hammer_to_dance_threshold,
                I_cur st)]
         else [])"
    by (simp add: kind_from_def)
next
  assume "for_loop self ht dth dt n st = Inr fin'"
  then show "\<exists>new. transition_points fin' = transition_points st @ new"
    by (rule for_loop_log_extends)
next
  assume "simulate_run ratio self max_days ht dth dt = Inr fin"
  from simulate_run_for_loop[OF this]
  obtain n' where loop: "for_loop self ht dth dt n' (initial_state self) = Inr fin" by blast
  have "aligned (initial_state self)" "logged (initial_state self)"
    by (simp_all add: aligned_def logged_def initial_state_def)
  from for_loop_logged[OF this loop]
  show "transition_points fin =
        expected_log (zip (t_list fin) (zip (I_list fin) (phase_list fin))) (current_phase fin)"
    by (simp add: logged_def)
qed

theorem transition_log_records_switches_witness:
  "loop_body switch_model 50 20 1 (initial_state switch_model) = Inr switch_step \<and>
   transition_points switch_step =
     transition_points (initial_state switch_model) @ [(0, Dance_to_hammer, 100)] \<and>
   for_loop switch_model 50 20 1 (Suc 0) switch_step = Inr switch_final \<and>
   simulate_run (Finite 2) switch_model 2 50 20 1 = Inr switch_final \<and>
   transition_points switch_final =
     expected_log (zip [0, 1] (zip [100, 135] [Dance, Hammer])) Hammer \<and>
   expected_log (zip [0, 1] (zip [100, 135] [Dance, Hammer])) Hammer =
     [(0, Dance_to_hammer, 100)]"
proof -
  note inst = transition_log_records_switches[of switch_model 50 20 1
      "initial_state switch_model" switch_step "Suc 0" switch_final "Finite 2" 2 switch_final]
  have l: "for_loop switch_model 50 20 1 (Suc 0) switch_step = Inr switch_final"
    by (simp add: body_switch_second)
  from inst body_switch
  have a: "transition_points switch_step =
     transition_points (initial_state switch_model) @ [(0, Dance_to_hammer, 100)]"
    by (simp add: initial_state_def init_def)
  from inst run_switch
  have "transition_points switch_final =
     expected_log (zip (t_list switch_final) (zip (I_list switch_final) (phase_list switch_final)))
       (current_phase switch_final)"
    by blast
  then have c: "transition_points switch_final =
     expected_log (zip [0, 1] (zip [100, 135] [Dance, Hammer])) Hammer"
    by simp
  have d: "expected_log (zip [0, 1] (zip [100, 135] [Dance, Hammer])) Hammer =
     [(0 :: real, Dance_to_hammer, 100 :: real)]"
    by (simp add: kind_from_def)
  from body_switch a l run_switch c d show ?thesis by simp
qed

text \<open>
  C9. In a finished run, the phase recorded at index \<open>k\<close> is the phase the loop holds after
  exactly \<open>k\<close> steps, that is, the phase carried into step \<open>k\<close>, before its decision; and the
  row at \<open>k + 1\<close> (the final state, for the last row) is the Euler step of the row at \<open>k\<close> at
  the rate of that recorded phase: \<open>beta_dance\<close> for dance, \<open>beta_hammer\<close> for hammer.
\<close>

theorem recorded_phase_matches_rate:
  assumes "simulate_run ratio self max_days ht dth dt = Inr fin" and "k < length (phase_list fin)"
  shows "(\<exists>stk. for_loop self ht dth dt k (initial_state self) = Inr stk \<and>
            current_phase stk = phase_list fin ! k) \<and>
         euler_step self (S_list fin ! k) (I_list fin ! k) (R_list fin ! k)
             (case phase_list fin ! k of Dance \<Rightarrow> beta_dance self | Hammer \<Rightarrow> beta_hammer self) dt
           = Inr ((S_list fin @ [S_cur fin]) ! Suc k, (I_list fin @ [I_cur fin]) ! Suc k,
                  (R_list fin @ [R_cur fin]) ! Suc k)"
proof -
  have inv: "run_inv self ht dth dt fin" using assms(1) by (rule simulate_run_inv)
  then have "length (phase_list fin) = length (t_list fin)" by (simp add: run_inv_def aligned_def)
  with assms(2) have "k < length (t_list fin)" by simp
  from simulate_run_entry[OF assms(1) this]
  have "\<exists>stk. for_loop self ht dth dt k (initial_state self) = Inr stk \<and>
            current_phase stk = phase_list fin ! k" by blast
  moreover from run_inv_euler[OF inv assms(2)]
  have "euler_step self (S_list fin ! k) (I_list fin ! k) (R_list fin ! k)
             (case phase_list fin ! k of Dance \<Rightarrow> beta_dance self | Hammer \<Rightarrow> beta_hammer self) dt
           = Inr ((S_list fin @ [S_cur fin]) ! Suc k, (I_list fin @ [I_cur fin]) ! Suc k,
                  (R_list fin @ [R_cur fin]) ! Suc k)"
    by (simp add: rate_of_def)
  ultimately show ?thesis by blast
qed

theorem recorded_phase_matches_rate_witness:
  "simulate_run (Finite 2) switch_model 2 50 20 1 = Inr switch_final \<and>
   1 < length (phase_list switch_final) \<and>
   for_loop switch_model 50 20 1 1 (initial_state switch_model) = Inr switch_step \<and>
   current_phase switch_step = phase_list switch_final ! 1 \<and>
   phase_list switch_final ! 1 = Hammer \<and>
   euler_step switch_model 855 135 10 (beta_hammer switch_model) 1
     = Inr (S_cur switch_final, I_cur switch_final, R_cur switch_final)"
proof -
  have k: "1 < length (phase_list switch_final)" by simp
  note inst = recorded_phase_matches_rate[OF run_switch k]
  have l: "for_loop switch_model 50 20 1 1 (initial_state switch_model) = Inr switch_step"
    by (simp add: body_switch)
  from inst have "euler_step switch_model 855 135 10 (beta_hammer switch_model) 1
     = Inr (S_cur switch_final, I_cur switch_final, R_cur switch_final)"
    by (simp add: numeral_2_eq_2)
  with run_switch k l show ?thesis by simp
qed

text \<open>
  C10. In a finished run, the row at index \<open>k\<close> of the returned series is the state the loop
  holds after exactly \<open>k\<close> steps, that is, at the start of step \<open>k\<close>; its time is \<open>k dt\<close>. The
  state that the last step produces carries the time \<open>n dt\<close> for \<open>n\<close> rows and is not among
  the rows. No recorded infected count after the first is below 0.1; so when a run with two
  rows or more is ended by an infected count below 0.1, the last recorded infected count is
  still at or above 0.1.
\<close>

theorem series_holds_start_states:
  assumes "simulate_run ratio self max_days ht dth dt = Inr fin"
  shows "simulate_dynamic_hammer_dance ratio self max_days ht dth hdur ddur dt =
           Inr (t_list fin, S_list fin, I_list fin, R_list fin, phase_list fin,
                transition_points fin) \<and>
         (\<forall>k < length (t_list fin).
            \<exists>stk. for_loop self ht dth dt k (initial_state self) = Inr stk \<and>
              t_list fin ! k = t_cur stk \<and> S_list fin ! k = S_cur stk \<and>
              I_list fin ! k = I_cur stk \<and> R_list fin ! k = R_cur stk \<and>
              phase_list fin ! k = current_phase stk) \<and>
         t_cur fin = real (length (t_list fin)) * dt \<and>
         (\<forall>k < length (t_list fin). t_list fin ! k = real k * dt) \<and>
         t_cur fin \<notin> set (t_list fin) \<and>
         (\<forall>k. 0 < k \<and> k < length (I_list fin) \<longrightarrow> \<not> I_list fin ! k < 0.1) \<and>
         (2 \<le> length (I_list fin) \<longrightarrow> \<not> last (I_list fin) < 0.1)"
proof -
  from assms have dt: "dt \<noteq> 0" by (simp add: simulate_run_loop)
  have inv: "run_inv self ht dth dt fin" using assms by (rule simulate_run_inv)
  then have tm: "timed dt fin" and alv: "alive fin" by (simp_all add: run_inv_def)
  have ret: "simulate_dynamic_hammer_dance ratio self max_days ht dth hdur ddur dt =
           Inr (t_list fin, S_list fin, I_list fin, R_list fin, phase_list fin,
                transition_points fin)"
    using assms by (simp add: simulate_dynamic_hammer_dance_def)
  have ent: "\<forall>k < length (t_list fin).
            \<exists>stk. for_loop self ht dth dt k (initial_state self) = Inr stk \<and>
              t_list fin ! k = t_cur stk \<and> S_list fin ! k = S_cur stk \<and>
              I_list fin ! k = I_cur stk \<and> R_list fin ! k = R_cur stk \<and>
              phase_list fin ! k = current_phase stk"
    using simulate_run_entry[OF assms] by metis
  have t1: "t_cur fin = real (length (t_list fin)) * dt"
    and t2: "\<forall>k < length (t_list fin). t_list fin ! k = real k * dt"
    using tm by (simp_all add: timed_def)
  have notin: "t_cur fin \<notin> set (t_list fin)"
  proof
    assume "t_cur fin \<in> set (t_list fin)"
    then obtain k where k: "k < length (t_list fin)" and "t_list fin ! k = t_cur fin"
      by (auto simp: in_set_conv_nth)
    with t1 t2 have "real k * dt = real (length (t_list fin)) * dt" by simp
    with dt k show False by simp
  qed
  have alive': "\<forall>k. 0 < k \<and> k < length (I_list fin) \<longrightarrow> \<not> I_list fin ! k < 0.1"
    using alv by (simp add: alive_def)
  have "2 \<le> length (I_list fin) \<longrightarrow> \<not> last (I_list fin) < 0.1"
  proof
    assume two: "2 \<le> length (I_list fin)"
    then have "I_list fin \<noteq> []" by auto
    then have "last (I_list fin) = I_list fin ! (length (I_list fin) - 1)"
      by (rule last_conv_nth)
    with alive' two show "\<not> last (I_list fin) < 0.1" by simp
  qed
  with ret ent t1 t2 notin alive' show ?thesis by blast
qed

theorem series_holds_start_states_witness:
  "simulate_run (Finite 5) fading_model 5 50 20 1 = Inr fading_final \<and>
   simulate_dynamic_hammer_dance (Finite 5) fading_model 5 50 20 None None 1 =
     Inr ([0, 1], [9997 / 10, 9997 / 10], [3 / 10, 3 / 20], [0, 3 / 20], [Dance, Dance], []) \<and>
   I_cur fading_final < 0.1 \<and>
   2 \<le> length (I_list fading_final) \<and>
   \<not> last (I_list fading_final) < 0.1 \<and>
   t_cur fading_final \<notin> set (t_list fading_final) \<and>
   for_loop fading_model 50 20 1 1 (initial_state fading_model) = Inr fading_step \<and>
   I_list fading_final ! 1 = I_cur fading_step"
proof -
  note inst = series_holds_start_states[OF run_fading, of None None]
  have two: "2 \<le> length (I_list fading_final)" by simp
  from inst have a: "simulate_dynamic_hammer_dance (Finite 5) fading_model 5 50 20 None None 1 =
     Inr ([0, 1], [9997 / 10, 9997 / 10], [3 / 10, 3 / 20], [0, 3 / 20], [Dance, Dance], [])"
    by simp
  from inst two have b: "\<not> last (I_list fading_final) < 0.1" by blast
  from inst have c: "t_cur fading_final \<notin> set (t_list fading_final)" by blast
  have l: "for_loop fading_model 50 20 1 1 (initial_state fading_model) = Inr fading_step"
    by (simp add: body_fading)
  from run_fading a two b c l show ?thesis by simp
qed

end
